theory Spec2Isabelle
  imports Complex_Main
begin

section \<open>Data model of \<^verbatim>\<open>deep_sort/track.py\<close>\<close>

text \<open>
  \<^verbatim>\<open>class TrackState\<close> is an enumeration with the integer tags
  \<^verbatim>\<open>Tentative = 1\<close>, \<^verbatim>\<open>Confirmed = 2\<close>, \<^verbatim>\<open>Deleted = 3\<close>.
\<close>

datatype TrackState = Tentative | Confirmed | Deleted

fun state_value :: "TrackState \<Rightarrow> int" where
  "state_value Tentative = 1"
| "state_value Confirmed = 2"
| "state_value Deleted = 3"

text \<open>
  Array elements (numpy floats) are modelled as exact reals: the model follows which
  operations the code applies to which components, not their rounding. Rounding is
  modelled apart, for the box conversions, in the section on binary64 arithmetic.

  A bounding box is a four-element array, a trajectory point a two-element array. The
  filter mean is the array \<open>(x, y, a, h, velocities ...)\<close> of the class docstring: its
  first four components, read by \<^verbatim>\<open>self.mean[:4]\<close>, and the remaining ones. Arrays of
  any other shape are outside the types (for them numpy raises or broadcasts).
\<close>

type_synonym box = "real \<times> real \<times> real \<times> real"
type_synonym point = "real \<times> real"
type_synonym mean_vec = "box \<times> real list"
type_synonym cov_mat = "real list list"
type_synonym feature_vec = "real list"

text \<open>
  The Kalman filter is an external collaborator; the track only calls
  \<^verbatim>\<open>kf.predict(mean, covariance)\<close> and \<^verbatim>\<open>kf.update(mean, covariance, xyah)\<close>, so it
  is a pair of functions taken as a parameter.
\<close>

record KalmanFilter =
  kf_predict :: "mean_vec \<Rightarrow> cov_mat \<Rightarrow> mean_vec \<times> cov_mat"
  kf_update :: "mean_vec \<Rightarrow> cov_mat \<Rightarrow> box \<Rightarrow> mean_vec \<times> cov_mat"

text \<open>
  The detection is external as well; \<^verbatim>\<open>Track.update\<close> reads \<^verbatim>\<open>get_ltwh()\<close>,
  \<^verbatim>\<open>to_xyah()\<close>, \<^verbatim>\<open>feature\<close>, \<^verbatim>\<open>confidence\<close>, \<^verbatim>\<open>class_name\<close>,
  \<^verbatim>\<open>instance_mask\<close> and \<^verbatim>\<open>others\<close>. Every field but the two boxes may be
  \<^verbatim>\<open>None\<close>.
\<close>

record ('m, 'o) Detection =
  d_ltwh :: box
  d_xyah :: box
  d_feature :: "feature_vec option"
  d_confidence :: "real option"
  d_class_name :: "string option"
  d_instance_mask :: "'m option"
  d_others :: "'o option"

text \<open>
  The attributes of \<^verbatim>\<open>class Track\<close>. The list \<^verbatim>\<open>features\<close> holds whatever was
  appended to it, so its elements are optional.
\<close>

record ('m, 'o) Track =
  mean :: mean_vec
  covariance :: cov_mat
  track_id :: int
  hits :: int
  age :: int
  time_since_update :: int
  state :: TrackState
  features :: "feature_vec option list"
  latest_feature :: "feature_vec option"
  n_init :: int
  max_age :: int
  original_ltwh :: "box option"
  det_class :: "string option"
  det_conf :: "real option"
  instance_mask :: "'m option"
  others :: "'o option"
  trajectory :: "point list"

text \<open>
  \<^verbatim>\<open>AttributeError\<close> is what Python raises for \<^verbatim>\<open>None.copy()\<close>.
  \<^verbatim>\<open>Malformed\<close> marks an array state outside the model of the array store below: a
  reference to no array, or an array of a length the method is not written for (numpy
  raises or broadcasts there).
\<close>

datatype error = AttributeError | Malformed

section \<open>Geometry\<close>

text \<open>numpy's \<^verbatim>\<open>//\<close> on floats: the floor of the quotient.\<close>

definition floor_divide :: "real \<Rightarrow> real \<Rightarrow> real" where
  "floor_divide x y = of_int \<lfloor>x / y\<rfloor>"

text \<open>
  The arithmetic of \<^verbatim>\<open>to_center\<close> on a box:
  \<^verbatim>\<open>ret[:2] += ret[2:] // 2; return ret[:2]\<close>.
\<close>

fun center_of_ltwh :: "box \<Rightarrow> point" where
  "center_of_ltwh (l, t, w, h) = (l + floor_divide w 2, t + floor_divide h 2)"

text \<open>
  \<^verbatim>\<open>to_center\<close> starts with \<^verbatim>\<open>self.original_ltwh.copy()\<close>, which raises
  \<^verbatim>\<open>AttributeError\<close> when the attribute is \<^verbatim>\<open>None\<close>.
\<close>

definition to_center :: "('m, 'o) Track \<Rightarrow> error + point" where
  "to_center trk =
     (case original_ltwh trk of
        None \<Rightarrow> Inl AttributeError
      | Some b \<Rightarrow> Inr (center_of_ltwh b))"

text \<open>
  The filter-derived box of \<^verbatim>\<open>to_ltwh\<close>:
  \<^verbatim>\<open>ret = self.mean[:4].copy(); ret[2] *= ret[3]; ret[:2] -= ret[2:] / 2\<close>.
\<close>

fun mean_to_ltwh :: "mean_vec \<Rightarrow> box" where
  "mean_to_ltwh ((x, y, a, h), vel) =
     (let w = a * h in (x - w / 2, y - h / 2, w, h))"

definition to_ltwh :: "('m, 'o) Track \<Rightarrow> bool \<Rightarrow> bool \<Rightarrow> box option" where
  "to_ltwh trk orig orig_strict =
     (if orig then
        (case original_ltwh trk of
           None \<Rightarrow> if orig_strict then None else Some (mean_to_ltwh (mean trk))
         | Some b \<Rightarrow> Some b)
      else Some (mean_to_ltwh (mean trk)))"

definition to_tlwh :: "('m, 'o) Track \<Rightarrow> bool \<Rightarrow> bool \<Rightarrow> box option" where
  "to_tlwh trk orig orig_strict = to_ltwh trk orig orig_strict"

text \<open>The corner arithmetic of \<^verbatim>\<open>to_ltrb\<close>: \<^verbatim>\<open>ret[2:] = ret[:2] + ret[2:]\<close>.\<close>

fun ltwh_to_ltrb :: "box \<Rightarrow> box" where
  "ltwh_to_ltrb (l, t, w, h) = (l, t, l + w, t + h)"

definition to_ltrb :: "('m, 'o) Track \<Rightarrow> bool \<Rightarrow> bool \<Rightarrow> box option" where
  "to_ltrb trk orig orig_strict =
     (case to_ltwh trk orig orig_strict of
        None \<Rightarrow> None
      | Some ret \<Rightarrow> Some (ltwh_to_ltrb ret))"

definition to_tlbr :: "('m, 'o) Track \<Rightarrow> bool \<Rightarrow> bool \<Rightarrow> box option" where
  "to_tlbr trk orig orig_strict = to_ltrb trk orig orig_strict"


section \<open>Construction and lifecycle\<close>

text \<open>
  \<^verbatim>\<open>Track.__init__\<close>. The feature is cached only when it is not \<^verbatim>\<open>None\<close>; the
  trajectory gets the centre of the original box only when that box is not
  \<^verbatim>\<open>None\<close> (so the call of \<^verbatim>\<open>to_center\<close> there cannot raise).
\<close>

definition init_track ::
  "mean_vec \<Rightarrow> cov_mat \<Rightarrow> int \<Rightarrow> int \<Rightarrow> int \<Rightarrow> feature_vec option \<Rightarrow> box option \<Rightarrow>
   string option \<Rightarrow> real option \<Rightarrow> 'm option \<Rightarrow> 'o option \<Rightarrow> ('m, 'o) Track" where
  "init_track mean0 covariance0 tid n_init0 max_age0 feature0 original_ltwh0
       det_class0 det_conf0 instance_mask0 others0 =
     \<lparr> mean = mean0,
       covariance = covariance0,
       track_id = tid,
       hits = 1,
       age = 1,
       time_since_update = 0,
       state = Tentative,
       features = (case feature0 of None \<Rightarrow> [] | Some f \<Rightarrow> [Some f]),
       latest_feature = (case feature0 of None \<Rightarrow> None | Some f \<Rightarrow> Some f),
       n_init = n_init0,
       max_age = max_age0,
       original_ltwh = original_ltwh0,
       det_class = det_class0,
       det_conf = det_conf0,
       instance_mask = instance_mask0,
       others = others0,
       trajectory = (case original_ltwh0 of None \<Rightarrow> [] | Some b \<Rightarrow> [center_of_ltwh b]) \<rparr>"

text \<open>\<^verbatim>\<open>Track.predict\<close>.\<close>

definition predict :: "KalmanFilter \<Rightarrow> ('m, 'o) Track \<Rightarrow> ('m, 'o) Track" where
  "predict kf trk =
     (let (m, c) = kf_predict kf (mean trk) (covariance trk) in
      trk\<lparr> mean := m,
           covariance := c,
           age := age trk + 1,
           time_since_update := time_since_update trk + 1,
           original_ltwh := None,
           det_conf := None,
           instance_mask := None,
           others := None \<rparr>)"

text \<open>
  \<^verbatim>\<open>Track.update\<close>. The feature is appended and stored as it comes, without a
  test for \<^verbatim>\<open>None\<close>. \<^verbatim>\<open>self.to_center()\<close> runs after \<^verbatim>\<open>original_ltwh\<close> has been
  set to the detection's box, so it returns the centre of that box.
\<close>

definition update :: "KalmanFilter \<Rightarrow> ('m, 'o) Track \<Rightarrow> ('m, 'o) Detection \<Rightarrow> ('m, 'o) Track" where
  "update kf trk detection =
     (let (m, c) = kf_update kf (mean trk) (covariance trk) (d_xyah detection);
          hits' = hits trk + 1
      in trk\<lparr> original_ltwh := Some (d_ltwh detection),
              mean := m,
              covariance := c,
              features := features trk @ [d_feature detection],
              latest_feature := d_feature detection,
              det_conf := d_confidence detection,
              det_class := d_class_name detection,
              instance_mask := d_instance_mask detection,
              others := d_others detection,
              trajectory := trajectory trk @ [center_of_ltwh (d_ltwh detection)],
              hits := hits',
              time_since_update := 0,
              state := (if state trk = Tentative \<and> n_init trk \<le> hits' then Confirmed
                        else state trk) \<rparr>)"

text \<open>\<^verbatim>\<open>Track.mark_missed\<close>.\<close>

definition mark_missed :: "('m, 'o) Track \<Rightarrow> ('m, 'o) Track" where
  "mark_missed trk =
     (if state trk = Tentative then trk\<lparr> state := Deleted \<rparr>
      else if max_age trk < time_since_update trk then trk\<lparr> state := Deleted \<rparr>
      else trk)"

definition is_tentative :: "('m, 'o) Track \<Rightarrow> bool" where
  "is_tentative trk = (state trk = Tentative)"

definition is_confirmed :: "('m, 'o) Track \<Rightarrow> bool" where
  "is_confirmed trk = (state trk = Confirmed)"

definition is_deleted :: "('m, 'o) Track \<Rightarrow> bool" where
  "is_deleted trk = (state trk = Deleted)"

section \<open>Kinematic derivations\<close>

text \<open>
  A numpy division does not raise on a zero divisor: it returns an infinity or a NaN
  (with a warning). Exact reals have no such value, so the quotient is tagged.
\<close>

datatype np_quotient = Quotient real | Inf_or_NaN

definition true_divide :: "real \<Rightarrow> real \<Rightarrow> np_quotient" where
  "true_divide x y = (if y = 0 then Inf_or_NaN else Quotient (x / y))"

text \<open>
  \<^verbatim>\<open>Track.get_velocity\<close>. The three results are \<^verbatim>\<open>None\<close> below two trajectory
  points. Otherwise \<^verbatim>\<open>trajectory_array[1:] - trajectory_array[:-1]\<close> pairs every point
  with its successor; the divisor \<^verbatim>\<open>velocity_magnitude + 1e-8\<close> is positive and the
  mean is taken over at least one magnitude.
\<close>

definition get_velocity ::
  "('m, 'o) Track \<Rightarrow> real \<Rightarrow> real option \<times> real list option \<times> point list option" where
  "get_velocity trk fps =
     (if length (trajectory trk) < 2 then (None, None, None)
      else
        (let velocity =
               map2 (\<lambda>p q. ((fst q - fst p) * fps, (snd q - snd p) * fps))
                 (butlast (trajectory trk)) (tl (trajectory trk));
             velocity_magnitude = map (\<lambda>v. sqrt ((fst v) ^ 2 + (snd v) ^ 2)) velocity;
             velocity_direction =
               map2 (\<lambda>v m. (fst v / (m + 1 / 10 ^ 8), snd v / (m + 1 / 10 ^ 8)))
                 velocity velocity_magnitude;
             average_velocity = sum_list velocity_magnitude / real (length velocity_magnitude)
         in (Some average_velocity, Some velocity_magnitude, Some velocity_direction)))"

text \<open>
  \<^verbatim>\<open>Track.get_trajectory_slope\<close>: \<^verbatim>\<open>trajectory_array[0]\<close> is the head and
  \<^verbatim>\<open>trajectory_array[-1]\<close> the last element of a list of at least two points.
\<close>

definition get_trajectory_slope :: "('m, 'o) Track \<Rightarrow> np_quotient option" where
  "get_trajectory_slope trk =
     (if length (trajectory trk) < 2 then None
      else
        (let diff_y = snd (last (trajectory trk)) - snd (hd (trajectory trk));
             diff_x = fst (last (trajectory trk)) - fst (hd (trajectory trk)) + 1 / 10 ^ 7;
             slope = true_divide diff_y diff_x
         in Some slope))"

section \<open>Sequences of lifecycle calls\<close>

text \<open>
  The owning tracker drives a track by calls of \<^verbatim>\<open>predict\<close>, \<^verbatim>\<open>update\<close> and
  \<^verbatim>\<open>mark_missed\<close>; a finite run of such calls is a list.
\<close>

datatype ('m, 'o) call = Predict | Update "('m, 'o) Detection" | MarkMissed

fun apply_call :: "KalmanFilter \<Rightarrow> ('m, 'o) Track \<Rightarrow> ('m, 'o) call \<Rightarrow> ('m, 'o) Track" where
  "apply_call kf trk Predict = predict kf trk"
| "apply_call kf trk (Update d) = update kf trk d"
| "apply_call kf trk MarkMissed = mark_missed trk"

fun run_calls :: "KalmanFilter \<Rightarrow> ('m, 'o) Track \<Rightarrow> ('m, 'o) call list \<Rightarrow> ('m, 'o) Track" where
  "run_calls kf trk [] = trk"
| "run_calls kf trk (c # cs) = run_calls kf (apply_call kf trk c) cs"

fun is_update :: "('m, 'o) call \<Rightarrow> bool" where
  "is_update (Update d) = True"
| "is_update c = False"

definition count_updates :: "('m, 'o) call list \<Rightarrow> int" where
  "count_updates cs = int (length (filter is_update cs))"

section \<open>The geometry queries on an array store\<close>

text \<open>
  numpy arrays are mutable objects and the geometry queries work on them in place
  (\<^verbatim>\<open>*=\<close>, \<^verbatim>\<open>-=\<close>, \<^verbatim>\<open>+=\<close>, slice assignment). To see what they may overwrite,
  this section models the two array attributes of a track as references into a store of
  arrays: an address is an index into the list \<open>arrays\<close>, and a new array (the result of
  \<^verbatim>\<open>.copy()\<close>) is appended at the next free address. Every method returns its
  result together with the state it leaves behind.
\<close>

type_synonym addr = nat
type_synonym ndarray = "real list"

record TrackArrays =
  mean_ref :: addr
  original_ltwh_ref :: "addr option"
  arrays :: "ndarray list"

text \<open>A basic slice \<^verbatim>\<open>a[i:j]\<close> is a view: it shares the memory of \<^verbatim>\<open>a\<close>.\<close>

datatype view = View addr nat nat

definition read_view :: "TrackArrays \<Rightarrow> view \<Rightarrow> ndarray" where
  "read_view s v = (case v of View p i j \<Rightarrow> take (j - i) (drop i (arrays s ! p)))"

definition new_array :: "ndarray \<Rightarrow> TrackArrays \<Rightarrow> addr \<times> TrackArrays" where
  "new_array xs s = (length (arrays s), s\<lparr> arrays := arrays s @ [xs] \<rparr>)"

definition in_place :: "addr \<Rightarrow> (ndarray \<Rightarrow> ndarray) \<Rightarrow> TrackArrays \<Rightarrow> TrackArrays" where
  "in_place p f s = s\<lparr> arrays := (arrays s)[p := f (arrays s ! p)] \<rparr>"

text \<open>
  The filter-derived branch of \<^verbatim>\<open>to_ltwh\<close>, statement by statement:
  \<^verbatim>\<open>ret = self.mean[:4].copy()\<close>, \<^verbatim>\<open>ret[2] *= ret[3]\<close>,
  \<^verbatim>\<open>ret[:2] -= ret[2:] / 2\<close>, \<^verbatim>\<open>return ret\<close>.
\<close>

definition mean_box_arr :: "TrackArrays \<Rightarrow> (error + addr option) \<times> TrackArrays" where
  "mean_box_arr s =
     (if mean_ref s < length (arrays s) \<and> 4 \<le> length (arrays s ! mean_ref s) then
        (let (ret, s1) = new_array (take 4 (arrays s ! mean_ref s)) s;
             s2 = in_place ret (\<lambda>r. r[2 := r ! 2 * r ! 3]) s1;
             s3 = in_place ret (\<lambda>r. r[0 := r ! 0 - r ! 2 / 2, 1 := r ! 1 - r ! 3 / 2]) s2
         in (Inr (Some ret), s3))
      else (Inl Malformed, s))"

definition to_ltwh_arr ::
  "TrackArrays \<Rightarrow> bool \<Rightarrow> bool \<Rightarrow> (error + addr option) \<times> TrackArrays" where
  "to_ltwh_arr s orig orig_strict =
     (if orig then
        (case original_ltwh_ref s of
           None \<Rightarrow> if orig_strict then (Inr None, s) else mean_box_arr s
         | Some a \<Rightarrow>
             if a < length (arrays s) then
               (let (ret, s1) = new_array (arrays s ! a) s in (Inr (Some ret), s1))
             else (Inl Malformed, s))
      else mean_box_arr s)"

definition to_tlwh_arr ::
  "TrackArrays \<Rightarrow> bool \<Rightarrow> bool \<Rightarrow> (error + addr option) \<times> TrackArrays" where
  "to_tlwh_arr s orig orig_strict = to_ltwh_arr s orig orig_strict"

text \<open>
  \<^verbatim>\<open>to_ltrb\<close>: \<^verbatim>\<open>ret = self.to_ltwh(...)\<close>, then, unless \<^verbatim>\<open>ret\<close> is
  \<^verbatim>\<open>None\<close>, \<^verbatim>\<open>ret[2:] = ret[:2] + ret[2:]\<close> on the array that \<^verbatim>\<open>to_ltwh\<close>
  returned.
\<close>

definition to_ltrb_arr ::
  "TrackArrays \<Rightarrow> bool \<Rightarrow> bool \<Rightarrow> (error + addr option) \<times> TrackArrays" where
  "to_ltrb_arr s orig orig_strict =
     (case to_ltwh_arr s orig orig_strict of
        (Inl e, s1) \<Rightarrow> (Inl e, s1)
      | (Inr None, s1) \<Rightarrow> (Inr None, s1)
      | (Inr (Some ret), s1) \<Rightarrow>
          if length (arrays s1 ! ret) = 4 then
            (Inr (Some ret), in_place ret (\<lambda>r. r[2 := r ! 0 + r ! 2, 3 := r ! 1 + r ! 3]) s1)
          else (Inl Malformed, s1))"

definition to_tlbr_arr ::
  "TrackArrays \<Rightarrow> bool \<Rightarrow> bool \<Rightarrow> (error + addr option) \<times> TrackArrays" where
  "to_tlbr_arr s orig orig_strict = to_ltrb_arr s orig orig_strict"

text \<open>
  \<^verbatim>\<open>to_center\<close>: \<^verbatim>\<open>ret = self.original_ltwh.copy()\<close>,
  \<^verbatim>\<open>ret[:2] += ret[2:] // 2\<close>, \<^verbatim>\<open>return ret[:2]\<close> (a view of the copy).
\<close>

definition to_center_arr :: "TrackArrays \<Rightarrow> (error + view) \<times> TrackArrays" where
  "to_center_arr s =
     (case original_ltwh_ref s of
        None \<Rightarrow> (Inl AttributeError, s)
      | Some a \<Rightarrow>
          if a < length (arrays s) \<and> length (arrays s ! a) = 4 then
            (let (ret, s1) = new_array (arrays s ! a) s;
                 s2 = in_place ret
                        (\<lambda>r. r[0 := r ! 0 + floor_divide (r ! 2) 2,
                               1 := r ! 1 + floor_divide (r ! 3) 2]) s1
             in (Inr (View ret 0 2), s2))
          else (Inl Malformed, s))"

text \<open>
  \<open>untouched s s'\<close>: the track still refers to the same two arrays, and every array that
  existed in \<open>s\<close> has the same contents in \<open>s'\<close>.
\<close>

definition untouched :: "TrackArrays \<Rightarrow> TrackArrays \<Rightarrow> bool" where
  "untouched s s' =
     (mean_ref s' = mean_ref s \<and> original_ltwh_ref s' = original_ltwh_ref s \<and>
      take (length (arrays s)) (arrays s') = arrays s)"

text \<open>
  The link to the value-level geometry above: \<open>represents s trk\<close> when the arrays that
  \<open>s\<close> refers to hold the mean and the original box of \<open>trk\<close>.
\<close>

fun box_array :: "box \<Rightarrow> ndarray" where
  "box_array (l, t, w, h) = [l, t, w, h]"

definition represents :: "TrackArrays \<Rightarrow> ('m, 'o) Track \<Rightarrow> bool" where
  "represents s trk =
     (mean_ref s < length (arrays s) \<and>
      arrays s ! mean_ref s = box_array (fst (mean trk)) @ snd (mean trk) \<and>
      (case original_ltwh_ref s of
         None \<Rightarrow> original_ltwh trk = None
       | Some a \<Rightarrow> a < length (arrays s) \<and>
                  Some (arrays s ! a) = map_option box_array (original_ltwh trk)))"

section \<open>The box conversions in binary64 arithmetic\<close>

text \<open>
  numpy's default float type is IEEE 754 binary64: a result is the exact result rounded
  to the nearest number with a 53-bit significand, ties going to the even significand.
  \<open>fl64\<close> is that rounding: \<open>e\<close> is the exponent of \<open>x\<close> (not below \<open>-1022\<close>, where the
  subnormal numbers begin) and \<open>ulp\<close> the spacing of the binary64 numbers around \<open>x\<close>.
  Overflow to infinity (magnitudes from \<open>2 ^ 1024\<close> on) is not represented.
\<close>

definition round_half_even :: "real \<Rightarrow> int" where
  "round_half_even y =
     (let n = \<lfloor>y\<rfloor>; d = y - of_int n
      in if d < 1 / 2 then n else if 1 / 2 < d then n + 1 else if even n then n else n + 1)"

definition fl64 :: "real \<Rightarrow> real" where
  "fl64 x =
     (if x = 0 then 0
      else
        (let e = max \<lfloor>log 2 \<bar>x\<bar>\<rfloor> (- 1022);
             ulp = 2 powi (e - 52)
         in of_int (round_half_even (x / ulp)) * ulp))"










section \<open>Example objects\<close>

text \<open>
  A filter that predicts no motion and, on an update, takes the measurement as the new
  position; a track as the tracker creates it; a detection without a feature vector;
  and an array store holding that track's mean and original box.
\<close>

definition example_kf :: KalmanFilter where
  "example_kf = \<lparr> kf_predict = (\<lambda>m c. (m, c)), kf_update = (\<lambda>m c z. ((z, snd m), c)) \<rparr>"

definition example_track :: "(unit, unit) Track" where
  "example_track =
     init_track ((10, 20, 1 / 2, 8), [0, 0, 0, 0]) [] 7 3 2 (Some [1, 0]) (Some (8, 16, 5, 9))
       (Some ''person'') (Some (9 / 10)) None None"

definition example_detection :: "(unit, unit) Detection" where
  "example_detection =
     \<lparr> d_ltwh = (9, 16, 4, 8), d_xyah = (11, 20, 1 / 2, 8), d_feature = None,
       d_confidence = Some (4 / 5), d_class_name = Some ''person'',
       d_instance_mask = None, d_others = None \<rparr>"

definition example_arrays :: TrackArrays where
  "example_arrays =
     \<lparr> mean_ref = 0, original_ltwh_ref = Some 1,
       arrays = [[10, 20, 1 / 2, 8, 0, 0, 0, 0], [8, 16, 5, 9]] \<rparr>"

text \<open>
  The binary64 numbers that Python writes \<^verbatim>\<open>0.1\<close>, \<^verbatim>\<open>0.2\<close> and
  \<^verbatim>\<open>0.30000000000000004\<close>, the binary64 numbers next above \<^verbatim>\<open>0.2\<close> and
  \<^verbatim>\<open>0.1\<close>, and a track whose original box and whose filter-derived box both have
  left edge \<^verbatim>\<open>0.1\<close> and width \<^verbatim>\<open>0.2\<close>.
\<close>

definition d01 :: real where
  "d01 = 3602879701896397 / 2 ^ 55"

definition d02 :: real where
  "d02 = 3602879701896397 / 2 ^ 54"





section \<open>Projections of the lifecycle calls\<close>

lemma predict_state: "state (predict kf trk) = state trk"
  by (simp add: predict_def split: prod.split)

lemma predict_hits: "hits (predict kf trk) = hits trk"
  by (simp add: predict_def split: prod.split)

lemma update_state:
  "state (update kf trk d) =
     (if state trk = Tentative \<and> n_init trk \<le> hits trk + 1 then Confirmed else state trk)"
  by (simp add: update_def Let_def split: prod.split)

lemma update_hits: "hits (update kf trk d) = hits trk + 1"
  by (simp add: update_def Let_def split: prod.split)

text \<open>
  \<^verbatim>\<open>__init__\<close> and \<^verbatim>\<open>update\<close> append the value of \<^verbatim>\<open>self.to_center()\<close>, called
  when \<^verbatim>\<open>original_ltwh\<close> already holds the box of the detection: the point the model
  appends is the point \<^verbatim>\<open>to_center\<close> returns on the resulting track.
\<close>

lemma update_appends_to_center:
  "to_center (update kf trk d) = Inr (center_of_ltwh (d_ltwh d)) \<and>
   trajectory (update kf trk d) = trajectory trk @ [center_of_ltwh (d_ltwh d)]"
  by (simp add: update_def to_center_def Let_def split: prod.split)

lemma init_appends_to_center:
  "to_center (init_track m cv tid ni ma f (Some b) dc dcf im ot) = Inr (center_of_ltwh b) \<and>
   trajectory (init_track m cv tid ni ma f (Some b) dc dcf im ot) = [center_of_ltwh b]"
  by (simp add: init_track_def to_center_def)

lemma apply_call_n_init: "n_init (apply_call kf trk c) = n_init trk"
  by (cases c) (simp_all add: predict_def update_def mark_missed_def Let_def split: prod.split)

lemma run_calls_n_init: "n_init (run_calls kf trk cs) = n_init trk"
  by (induction cs arbitrary: trk) (simp_all add: apply_call_n_init)

lemma run_calls_append:
  "run_calls kf trk (xs @ ys) = run_calls kf (run_calls kf trk xs) ys"
  by (induction xs arbitrary: trk) simp_all

lemma run_calls_snoc:
  "run_calls kf trk (cs @ [c]) = apply_call kf (run_calls kf trk cs) c"
  by (induction cs arbitrary: trk) simp_all

section \<open>The state machine\<close>

lemma state_apply_call_mono:
  "state_value (state trk) \<le> state_value (state (apply_call kf trk c))"
  by (cases c; cases "state trk")
     (simp_all add: predict_state update_state mark_missed_def)

lemma state_run_calls_mono:
  "state_value (state trk) \<le> state_value (state (run_calls kf trk cs))"
proof (induction cs arbitrary: trk)
  case Nil
  show ?case by simp
next
  case (Cons c cs)
  have "state_value (state trk) \<le> state_value (state (apply_call kf trk c))"
    by (rule state_apply_call_mono)
  also have "\<dots> \<le> state_value (state (run_calls kf (apply_call kf trk c) cs))"
    by (rule Cons.IH)
  finally show ?case by simp
qed

lemma state_value_top: "3 \<le> state_value s \<Longrightarrow> s = Deleted"
  by (cases s) simp_all

text \<open>
  Claim C1. Over any finite sequence of \<^verbatim>\<open>predict\<close>, \<^verbatim>\<open>update\<close> and
  \<^verbatim>\<open>mark_missed\<close> calls, on any track, the state only moves forward in the order
  Tentative, Confirmed, Deleted (the order of the enumeration's values): at any point of
  the sequence the state is not before the state at any earlier point. Once the state is
  Deleted it stays Deleted whatever is called afterwards.
\<close>

theorem state_only_moves_forward:
  "state_value (state (run_calls kf trk cs1))
     \<le> state_value (state (run_calls kf trk (cs1 @ cs2))) \<and>
   (state (run_calls kf trk cs1) = Deleted \<longrightarrow>
      state (run_calls kf trk (cs1 @ cs2)) = Deleted)"
proof (intro conjI impI)
  show "state_value (state (run_calls kf trk cs1))
          \<le> state_value (state (run_calls kf trk (cs1 @ cs2)))"
    by (simp add: run_calls_append state_run_calls_mono)
next
  assume "state (run_calls kf trk cs1) = Deleted"
  with state_run_calls_mono [of "run_calls kf trk cs1" kf cs2]
  have "3 \<le> state_value (state (run_calls kf trk (cs1 @ cs2)))"
    by (simp add: run_calls_append)
  then show "state (run_calls kf trk (cs1 @ cs2)) = Deleted" by (rule state_value_top)
qed

theorem state_only_moves_forward_witness:
  "state (run_calls example_kf example_track [MarkMissed]) = Deleted \<and>
   state (run_calls example_kf example_track
            ([MarkMissed] @ [Predict, Update example_detection, MarkMissed,
                             Update example_detection])) = Deleted"
  using state_only_moves_forward [of example_kf example_track "[MarkMissed]"
            "[Predict, Update example_detection, MarkMissed, Update example_detection]"]
  by (simp add: mark_missed_def example_track_def init_track_def)

lemma confirm_step:
  "(state trk \<noteq> Confirmed \<and> state (apply_call kf trk c) = Confirmed) =
   (\<exists>d. c = Update d \<and> state trk = Tentative \<and> n_init trk \<le> hits (apply_call kf trk c))"
  by (cases c; cases "state trk")
     (simp_all add: update_state update_hits predict_state mark_missed_def)

lemma fresh_run:
  "MarkMissed \<notin> set cs \<Longrightarrow> trk0 = init_track m cv tid ni ma f b dc dcf im ot \<Longrightarrow>
   hits (run_calls kf trk0 cs) = 1 + count_updates cs \<and>
   state (run_calls kf trk0 cs) =
     (if 0 < count_updates cs \<and> ni \<le> 1 + count_updates cs then Confirmed else Tentative)"
proof (induction cs rule: rev_induct)
  case Nil
  then show ?case by (simp add: init_track_def count_updates_def)
next
  case (snoc x xs)
  then have IH: "hits (run_calls kf trk0 xs) = 1 + count_updates xs"
      "state (run_calls kf trk0 xs) =
         (if 0 < count_updates xs \<and> ni \<le> 1 + count_updates xs then Confirmed else Tentative)"
    by simp_all
  have ni: "n_init (run_calls kf trk0 xs) = ni"
    using snoc.prems by (simp add: run_calls_n_init init_track_def)
  show ?case
  proof (cases x)
    case Predict
    then show ?thesis
      using IH by (simp add: run_calls_snoc predict_state predict_hits count_updates_def)
  next
    case (Update d)
    then show ?thesis
      using IH ni by (auto simp add: run_calls_snoc update_state update_hits count_updates_def)
  next
    case MarkMissed
    then show ?thesis using snoc.prems by simp
  qed
qed

text \<open>
  Claim C2. A track becomes Confirmed exactly on an \<^verbatim>\<open>update\<close> call made while it
  is Tentative whose incremented \<^verbatim>\<open>hits\<close> is at least \<^verbatim>\<open>n_init\<close>; no other call
  makes a track Confirmed. For a track as constructed (\<^verbatim>\<open>hits = 1\<close>, Tentative) and
  driven by \<^verbatim>\<open>predict\<close> and \<^verbatim>\<open>update\<close> calls, \<^verbatim>\<open>hits\<close> is one more than the number
  of updates so far, and the track is Confirmed if and only if there has been an update
  and \<^verbatim>\<open>hits\<close> has reached \<^verbatim>\<open>n_init\<close>: so it is confirmed on the first update whose
  incremented \<^verbatim>\<open>hits\<close> reaches \<^verbatim>\<open>n_init\<close> and on no earlier call.
\<close>

theorem confirmed_exactly_at_n_init:
  "((state trk \<noteq> Confirmed \<and> state (apply_call kf trk c) = Confirmed) =
      (\<exists>d. c = Update d \<and> state trk = Tentative \<and> n_init trk \<le> hits (apply_call kf trk c))) \<and>
   hits (update kf trk d) = hits trk + 1 \<and>
   (MarkMissed \<notin> set cs \<longrightarrow>
      hits (run_calls kf (init_track m cv tid ni ma f b dc dcf im ot) cs) = 1 + count_updates cs \<and>
      state (run_calls kf (init_track m cv tid ni ma f b dc dcf im ot) cs) =
        (if 0 < count_updates cs \<and> ni \<le> 1 + count_updates cs then Confirmed else Tentative))"
  using confirm_step [of trk kf c] fresh_run [of cs _ m cv tid ni ma f b dc dcf im ot kf]
  by (simp add: update_hits)

theorem confirmed_exactly_at_n_init_witness:
  "MarkMissed \<notin> set [Update example_detection, Predict, Update example_detection] \<and>
   n_init example_track = 3 \<and>
   state (run_calls example_kf example_track [Update example_detection, Predict]) = Tentative \<and>
   hits (run_calls example_kf example_track [Update example_detection, Predict]) = 2 \<and>
   state (run_calls example_kf example_track
            [Update example_detection, Predict, Update example_detection]) = Confirmed \<and>
   hits (run_calls example_kf example_track
            [Update example_detection, Predict, Update example_detection]) = 3"
  using confirmed_exactly_at_n_init
          [of example_track example_kf Predict example_detection
              "[Update example_detection, Predict, Update example_detection]"
              "((10, 20, 1 / 2, 8), [0, 0, 0, 0])" "[]" 7 3 2 "Some [1, 0]" "Some (8, 16, 5, 9)"
              "Some ''person''" "Some (9 / 10)" None None]
        confirmed_exactly_at_n_init
          [of example_track example_kf Predict example_detection
              "[Update example_detection, Predict]"
              "((10, 20, 1 / 2, 8), [0, 0, 0, 0])" "[]" 7 3 2 "Some [1, 0]" "Some (8, 16, 5, 9)"
              "Some ''person''" "Some (9 / 10)" None None]
  by (simp add: example_track_def [symmetric] count_updates_def)
     (simp add: example_track_def init_track_def)

text \<open>
  Claim C3. \<^verbatim>\<open>mark_missed\<close> on a Tentative track yields Deleted, whatever the age;
  on a Confirmed track it yields Deleted if and only if \<^verbatim>\<open>time_since_update\<close> is
  greater than \<^verbatim>\<open>max_age\<close>, and otherwise leaves the state as it is; and it changes no
  attribute other than \<^verbatim>\<open>state\<close>.
\<close>

theorem mark_missed_effect:
  "(state trk = Tentative \<longrightarrow> state (mark_missed trk) = Deleted) \<and>
   (state trk = Confirmed \<longrightarrow>
      (state (mark_missed trk) = Deleted) = (max_age trk < time_since_update trk) \<and>
      (\<not> max_age trk < time_since_update trk \<longrightarrow> state (mark_missed trk) = state trk)) \<and>
   mark_missed trk = trk\<lparr> state := state (mark_missed trk) \<rparr>"
  by (simp add: mark_missed_def)

theorem mark_missed_effect_witness:
  "state example_track = Tentative \<and> state (mark_missed example_track) = Deleted \<and>
   state (example_track\<lparr> state := Confirmed, time_since_update := 2 \<rparr>) = Confirmed \<and>
   \<not> max_age (example_track\<lparr> state := Confirmed, time_since_update := 2 \<rparr>)
       < time_since_update (example_track\<lparr> state := Confirmed, time_since_update := 2 \<rparr>) \<and>
   state (mark_missed (example_track\<lparr> state := Confirmed, time_since_update := 2 \<rparr>)) = Confirmed \<and>
   max_age (example_track\<lparr> state := Confirmed, time_since_update := 3 \<rparr>)
       < time_since_update (example_track\<lparr> state := Confirmed, time_since_update := 3 \<rparr>) \<and>
   state (mark_missed (example_track\<lparr> state := Confirmed, time_since_update := 3 \<rparr>)) = Deleted"
  using mark_missed_effect [of example_track]
        mark_missed_effect [of "example_track\<lparr> state := Confirmed, time_since_update := 2 \<rparr>"]
        mark_missed_effect [of "example_track\<lparr> state := Confirmed, time_since_update := 3 \<rparr>"]
  by (simp add: example_track_def init_track_def)

section \<open>The feature cache on update\<close>

text \<open>
  Claim C4, as the specification states it, fails: \<^verbatim>\<open>update\<close> appends
  \<^verbatim>\<open>detection.feature\<close> and assigns it to \<^verbatim>\<open>latest_feature\<close> without testing it
  for \<^verbatim>\<open>None\<close>. On the example track (one cached feature) a detection without a
  feature vector makes \<^verbatim>\<open>features\<close> one element longer and resets
  \<^verbatim>\<open>latest_feature\<close> to \<^verbatim>\<open>None\<close>.
\<close>

theorem update_absent_feature_counterexample:
  "d_feature example_detection = None \<and>
   features example_track = [Some [1, 0]] \<and>
   features (update example_kf example_track example_detection) = [Some [1, 0], None] \<and>
   features (update example_kf example_track example_detection) \<noteq> features example_track \<and>
   latest_feature example_track = Some [1, 0] \<and>
   latest_feature (update example_kf example_track example_detection) = None \<and>
   latest_feature (update example_kf example_track example_detection)
     \<noteq> latest_feature example_track"
  by (simp add: update_def Let_def example_kf_def example_track_def example_detection_def
        init_track_def)

text \<open>
  Claim C4, amended. For a detection whose feature vector is absent, \<^verbatim>\<open>update\<close>
  appends one absent entry to \<^verbatim>\<open>features\<close> and sets \<^verbatim>\<open>latest_feature\<close> to absent,
  while incrementing \<^verbatim>\<open>hits\<close> by one.
\<close>

theorem update_absent_feature:
  "d_feature detection = None \<Longrightarrow>
   features (update kf trk detection) = features trk @ [None] \<and>
   latest_feature (update kf trk detection) = None \<and>
   hits (update kf trk detection) = hits trk + 1"
  by (simp add: update_def Let_def split: prod.split)

theorem update_absent_feature_witness:
  "d_feature example_detection = None \<and>
   features (update example_kf example_track example_detection) = features example_track @ [None] \<and>
   latest_feature (update example_kf example_track example_detection) = None \<and>
   hits (update example_kf example_track example_detection) = hits example_track + 1"
proof -
  have h: "d_feature example_detection = None"
    by (simp add: example_detection_def)
  show ?thesis
    using h update_absent_feature [OF h, of example_kf example_track] by simp
qed

section \<open>Frame of \<^verbatim>\<open>predict\<close>\<close>

text \<open>
  Claim C5. Every \<^verbatim>\<open>predict\<close> call adds exactly 1 to \<^verbatim>\<open>age\<close> and to
  \<^verbatim>\<open>time_since_update\<close>, sets \<^verbatim>\<open>original_ltwh\<close>, \<^verbatim>\<open>det_conf\<close>,
  \<^verbatim>\<open>instance_mask\<close> and \<^verbatim>\<open>others\<close> to \<^verbatim>\<open>None\<close>, and leaves \<^verbatim>\<open>state\<close>,
  \<^verbatim>\<open>hits\<close>, \<^verbatim>\<open>features\<close>, \<^verbatim>\<open>trajectory\<close> and \<^verbatim>\<open>det_class\<close> as they were.
\<close>

theorem predict_frame:
  "age (predict kf trk) = age trk + 1 \<and>
   time_since_update (predict kf trk) = time_since_update trk + 1 \<and>
   original_ltwh (predict kf trk) = None \<and>
   det_conf (predict kf trk) = None \<and>
   instance_mask (predict kf trk) = None \<and>
   others (predict kf trk) = None \<and>
   state (predict kf trk) = state trk \<and>
   hits (predict kf trk) = hits trk \<and>
   features (predict kf trk) = features trk \<and>
   trajectory (predict kf trk) = trajectory trk \<and>
   det_class (predict kf trk) = det_class trk"
  by (simp add: predict_def split: prod.split)

section \<open>Original and filter-derived boxes\<close>

text \<open>
  Claim C6. With \<^verbatim>\<open>original_ltwh\<close> absent, \<^verbatim>\<open>to_ltwh(orig=True, orig_strict=True)\<close>
  returns \<^verbatim>\<open>None\<close> and does not fall back to the filter-derived box, while
  \<^verbatim>\<open>to_ltwh(orig=True, orig_strict=False)\<close> returns the box derived from the filter
  mean \<open>(x, y, a, h)\<close>: width \<open>a * h\<close>, height \<open>h\<close>, top-left corner the centre minus half
  the width and half the height. \<^verbatim>\<open>to_ltrb\<close> follows \<^verbatim>\<open>to_ltwh\<close> in every mode: it
  is \<^verbatim>\<open>None\<close> exactly when \<^verbatim>\<open>to_ltwh\<close> is, and otherwise the box of \<^verbatim>\<open>to_ltwh\<close>
  with width and height added onto the top-left corner.
\<close>

theorem original_box_modes:
  "mean trk = ((x, y, a, h), vel) \<Longrightarrow>
   (original_ltwh trk = None \<longrightarrow>
      to_ltwh trk True True = None \<and>
      to_ltwh trk True False = Some (x - a * h / 2, y - h / 2, a * h, h) \<and>
      to_ltrb trk True True = None \<and>
      to_ltrb trk True False =
        Some (x - a * h / 2, y - h / 2, (x - a * h / 2) + a * h, (y - h / 2) + h)) \<and>
   (original_ltwh trk = Some (l, t, w, hh) \<longrightarrow>
      to_ltwh trk True orig_strict = Some (l, t, w, hh) \<and>
      to_ltrb trk True orig_strict = Some (l, t, l + w, t + hh)) \<and>
   to_ltwh trk False orig_strict = Some (x - a * h / 2, y - h / 2, a * h, h) \<and>
   to_ltrb trk orig orig_strict = map_option ltwh_to_ltrb (to_ltwh trk orig orig_strict)"
  by (simp add: to_ltwh_def to_ltrb_def Let_def split: option.split)

theorem original_box_modes_witness:
  "mean (predict example_kf example_track) = ((10, 20, 1 / 2, 8), [0, 0, 0, 0]) \<and>
   original_ltwh (predict example_kf example_track) = None \<and>
   to_ltwh (predict example_kf example_track) True True = None \<and>
   to_ltwh (predict example_kf example_track) True False = Some (8, 16, 4, 8) \<and>
   to_ltrb (predict example_kf example_track) True True = None \<and>
   to_ltrb (predict example_kf example_track) True False = Some (8, 16, 12, 24) \<and>
   mean example_track = ((10, 20, 1 / 2, 8), [0, 0, 0, 0]) \<and>
   original_ltwh example_track = Some (8, 16, 5, 9) \<and>
   to_ltwh example_track True True = Some (8, 16, 5, 9) \<and>
   to_ltrb example_track True True = Some (8, 16, 13, 25)"
proof -
  have m1: "mean (predict example_kf example_track) = ((10, 20, 1 / 2, 8), [0, 0, 0, 0])"
    by (simp add: predict_def example_kf_def example_track_def init_track_def)
  have o1: "original_ltwh (predict example_kf example_track) = None"
    by (simp add: predict_def split: prod.split)
  have m2: "mean example_track = ((10, 20, 1 / 2, 8), [0, 0, 0, 0])"
    by (simp add: example_track_def init_track_def)
  have o2: "original_ltwh example_track = Some (8, 16, 5, 9)"
    by (simp add: example_track_def init_track_def)
  show ?thesis
    using m1 o1 m2 o2
      original_box_modes [OF m1, of 0 0 0 0 True True]
      original_box_modes [OF m2, of 8 16 5 9 True True]
    by simp
qed

section \<open>The corner form and back\<close>


text \<open>
  Evaluating \<open>fl64\<close>: a number whose magnitude, scaled by \<open>2 ^ k\<close>, lies between \<open>2 ^ 52\<close>
  and \<open>2 ^ 53\<close> is rounded to a multiple of \<open>1 / 2 ^ k\<close>.
\<close>

lemma powr_52_minus: "(2::real) powr (of_int (52 - int k)) = 2 ^ 52 / 2 ^ k"
  by (simp add: powr_diff powr_realpow)

lemma powr_53_minus: "(2::real) powr (of_int (52 - int k) + 1) = 2 ^ 53 / 2 ^ k"
  by (simp add: powr_diff powr_add powr_realpow)

lemma powi_minus_nat: "(2::real) powi (- int k) = 1 / 2 ^ k"
  by (simp add: power_int_minus field_simps)

lemma fl64_scaled:
  assumes "2 ^ 52 \<le> \<bar>x\<bar> * 2 ^ k" "\<bar>x\<bar> * 2 ^ k < 2 ^ 53" "k \<le> 1074"
  shows "fl64 x = of_int (round_half_even (x * 2 ^ k)) / 2 ^ k"
proof -
  have x0: "x \<noteq> 0" using assms(1) by auto
  then have pos: "0 < \<bar>x\<bar>" by simp
  have "2 powr (of_int (52 - int k)) \<le> \<bar>x\<bar> \<and> \<bar>x\<bar> < 2 powr (of_int (52 - int k) + 1)"
    using assms(1,2) unfolding powr_52_minus powr_53_minus by (simp add: field_simps)
  then have "\<lfloor>log 2 \<bar>x\<bar>\<rfloor> = 52 - int k"
    using floor_log_eq_powr_iff [of "\<bar>x\<bar>" 2 "52 - int k"] pos by simp
  then have e: "max \<lfloor>log 2 \<bar>x\<bar>\<rfloor> (- 1022) = 52 - int k"
    using assms(3) by simp
  show ?thesis
    using x0 by (simp add: fl64_def e powi_minus_nat Let_def)
qed

text \<open>The example numbers are the roundings of one tenth and one fifth.\<close>

lemma fl64_tenth: "fl64 (1 / 10) = d01"
  by (subst fl64_scaled [of _ 56]) (simp_all add: d01_def round_half_even_def)

lemma fl64_fifth: "fl64 (2 / 10) = d02"
  by (subst fl64_scaled [of _ 55]) (simp_all add: d02_def round_half_even_def)














section \<open>Velocity and slope\<close>

text \<open>
  Claim C7. With fewer than two trajectory points \<^verbatim>\<open>get_trajectory_slope\<close> returns
  \<^verbatim>\<open>None\<close> and \<^verbatim>\<open>get_velocity\<close> returns three \<^verbatim>\<open>None\<close>s. With at least two
  points \<^verbatim>\<open>get_trajectory_slope\<close> returns the quotient of \<open>last_y - first_y\<close> by
  \<open>last_x - first_x + 1e-07\<close>, read off the first and the last point only; where that
  divisor is not zero the quotient is the number
  \<open>(last_y - first_y) / (last_x - first_x + 1e-07)\<close>.
\<close>

theorem kinematics_need_two_points:
  "(length (trajectory trk) < 2 \<longrightarrow>
      get_trajectory_slope trk = None \<and> get_velocity trk fps = (None, None, None)) \<and>
   (2 \<le> length (trajectory trk) \<longrightarrow>
      get_trajectory_slope trk =
        Some (true_divide (snd (last (trajectory trk)) - snd (hd (trajectory trk)))
               (fst (last (trajectory trk)) - fst (hd (trajectory trk)) + 1 / 10 ^ 7)) \<and>
      (fst (last (trajectory trk)) - fst (hd (trajectory trk)) + 1 / 10 ^ 7 \<noteq> 0 \<longrightarrow>
         get_trajectory_slope trk =
           Some (Quotient ((snd (last (trajectory trk)) - snd (hd (trajectory trk))) /
                  (fst (last (trajectory trk)) - fst (hd (trajectory trk)) + 1 / 10 ^ 7)))))"
  by (simp add: get_trajectory_slope_def get_velocity_def true_divide_def Let_def)

theorem kinematics_need_two_points_witness:
  "length (trajectory example_track) < 2 \<and>
   get_trajectory_slope example_track = None \<and>
   get_velocity example_track 5 = (None, None, None) \<and>
   2 \<le> length (trajectory (example_track\<lparr> trajectory := [(0, 0), (7, 9), (2, 1)] \<rparr>)) \<and>
   get_trajectory_slope (example_track\<lparr> trajectory := [(0, 0), (7, 9), (2, 1)] \<rparr>) =
     Some (Quotient (1 / (2 + 1 / 10 ^ 7)))"
  using kinematics_need_two_points [of example_track 5]
        kinematics_need_two_points [of "example_track\<lparr> trajectory := [(0, 0), (7, 9), (2, 1)] \<rparr>" 5]
  by (simp add: example_track_def init_track_def true_divide_def)

section \<open>The geometry queries leave the track's arrays alone\<close>

lemma untouched_refl: "untouched s s"
  by (simp add: untouched_def)

lemma untouched_in_place:
  "untouched s s1 \<Longrightarrow> length (arrays s) \<le> p \<Longrightarrow> untouched s (in_place p f s1)"
  by (simp add: untouched_def in_place_def take_update_cancel)

lemma untouched_nth:
  "untouched s s' \<Longrightarrow> a < length (arrays s) \<Longrightarrow> arrays s' ! a = arrays s ! a"
  by (metis nth_take untouched_def)

lemma untouched_mean_box: "untouched s (snd (mean_box_arr s))"
  by (simp add: mean_box_arr_def Let_def new_array_def untouched_def in_place_def)

lemma fresh_mean_box:
  "fst (mean_box_arr s) = Inr (Some ret) \<Longrightarrow>
   ret = length (arrays s) \<and> ret < length (arrays (snd (mean_box_arr s)))"
  by (auto simp add: mean_box_arr_def Let_def new_array_def in_place_def split: if_splits)

lemma untouched_to_ltwh: "untouched s (snd (to_ltwh_arr s orig orig_strict))"
  using untouched_mean_box [of s]
  by (simp add: to_ltwh_arr_def new_array_def untouched_def split: option.split)

lemma fresh_to_ltwh:
  "fst (to_ltwh_arr s orig orig_strict) = Inr (Some ret) \<Longrightarrow>
   ret = length (arrays s) \<and> ret < length (arrays (snd (to_ltwh_arr s orig orig_strict)))"
  by (auto simp add: to_ltwh_arr_def new_array_def dest: fresh_mean_box
        split: if_splits option.splits)

lemma untouched_to_ltrb: "untouched s (snd (to_ltrb_arr s orig orig_strict))"
proof (cases "to_ltwh_arr s orig orig_strict")
  case (Pair r s1)
  have u: "untouched s s1"
    using untouched_to_ltwh [of s orig orig_strict] Pair by simp
  show ?thesis
  proof (cases r)
    case (Inl e)
    with Pair u show ?thesis by (simp add: to_ltrb_arr_def)
  next
    case (Inr q)
    show ?thesis
    proof (cases q)
      case None
      with Pair Inr u show ?thesis by (simp add: to_ltrb_arr_def)
    next
      case (Some ret)
      have "length (arrays s) \<le> ret"
        using fresh_to_ltwh [of s orig orig_strict ret] Pair Inr Some by simp
      with Pair Inr Some u show ?thesis
        by (simp add: to_ltrb_arr_def untouched_in_place)
    qed
  qed
qed

lemma fresh_to_ltrb:
  "fst (to_ltrb_arr s orig orig_strict) = Inr (Some ret) \<Longrightarrow>
   ret = length (arrays s) \<and> ret < length (arrays (snd (to_ltrb_arr s orig orig_strict)))"
  using fresh_to_ltwh [of s orig orig_strict ret]
  by (auto simp add: to_ltrb_arr_def in_place_def
        split: prod.splits sum.splits option.splits if_splits)

lemma untouched_to_center: "untouched s (snd (to_center_arr s))"
  by (simp add: to_center_arr_def untouched_refl Let_def new_array_def untouched_def in_place_def
        split: option.split)

lemma fresh_to_center:
  "fst (to_center_arr s) = Inr (View ret i j) \<Longrightarrow>
   ret = length (arrays s) \<and> ret < length (arrays (snd (to_center_arr s)))"
  by (auto simp add: to_center_arr_def Let_def new_array_def in_place_def
        split: option.splits if_splits)

text \<open>
  On a store that holds a track's mean and original box, the store-level queries return
  arrays with the contents the value-level functions compute, and fail where those fail.
\<close>

lemma to_ltwh_arr_refines:
  "represents s trk \<Longrightarrow>
   \<exists>r s'. to_ltwh_arr s orig orig_strict = (Inr r, s') \<and>
          map_option (\<lambda>p. arrays s' ! p) r = map_option box_array (to_ltwh trk orig orig_strict)"
  by (cases "mean trk"; cases "fst (mean trk)")
     (auto simp add: represents_def to_ltwh_arr_def to_ltwh_def mean_box_arr_def Let_def
        new_array_def in_place_def nth_append split: option.splits)

lemma to_ltrb_arr_refines:
  "represents s trk \<Longrightarrow>
   \<exists>r s'. to_ltrb_arr s orig orig_strict = (Inr r, s') \<and>
          map_option (\<lambda>p. arrays s' ! p) r = map_option box_array (to_ltrb trk orig orig_strict)"
  by (cases "mean trk"; cases "fst (mean trk)")
     (auto simp add: represents_def to_ltrb_arr_def to_ltrb_def to_ltwh_arr_def to_ltwh_def
        mean_box_arr_def Let_def new_array_def in_place_def nth_append split: option.splits)

lemma to_center_arr_refines:
  "represents s trk \<Longrightarrow>
   (case to_center_arr s of
      (Inl e, s') \<Rightarrow> e = AttributeError \<and> to_center trk = Inl AttributeError
    | (Inr v, s') \<Rightarrow> \<exists>c. to_center trk = Inr c \<and> read_view s' v = [fst c, snd c])"
  by (auto simp add: represents_def to_center_arr_def to_center_def Let_def
        new_array_def in_place_def nth_append read_view_def split: option.splits)

text \<open>
  Claim C9. The geometry queries \<^verbatim>\<open>to_ltwh\<close>, \<^verbatim>\<open>to_tlwh\<close>, \<^verbatim>\<open>to_ltrb\<close>,
  \<^verbatim>\<open>to_tlbr\<close> and \<^verbatim>\<open>to_center\<close> never change the track: after the call it refers
  to the same arrays and every array that existed before the call has its old contents.
  An array they return is a new one, at an address that was free before the call; so the
  in-place corner arithmetic of \<^verbatim>\<open>to_ltrb\<close> works on a copy, and the arrays of
  \<^verbatim>\<open>mean\<close> and \<^verbatim>\<open>original_ltwh\<close> are after the call what they were before.
\<close>

theorem geometry_queries_read_only:
  "untouched s (snd (to_ltwh_arr s orig orig_strict)) \<and>
   untouched s (snd (to_tlwh_arr s orig orig_strict)) \<and>
   untouched s (snd (to_ltrb_arr s orig orig_strict)) \<and>
   untouched s (snd (to_tlbr_arr s orig orig_strict)) \<and>
   untouched s (snd (to_center_arr s)) \<and>
   (fst (to_ltwh_arr s orig orig_strict) = Inr (Some ret) \<longrightarrow>
      length (arrays s) \<le> ret \<and> ret < length (arrays (snd (to_ltwh_arr s orig orig_strict)))) \<and>
   (fst (to_ltrb_arr s orig orig_strict) = Inr (Some ret) \<longrightarrow>
      length (arrays s) \<le> ret \<and> ret < length (arrays (snd (to_ltrb_arr s orig orig_strict)))) \<and>
   (fst (to_center_arr s) = Inr (View ret i j) \<longrightarrow>
      length (arrays s) \<le> ret \<and> ret < length (arrays (snd (to_center_arr s)))) \<and>
   (mean_ref s < length (arrays s) \<longrightarrow>
      arrays (snd (to_ltrb_arr s orig orig_strict)) ! mean_ref s = arrays s ! mean_ref s) \<and>
   (original_ltwh_ref s = Some a \<and> a < length (arrays s) \<longrightarrow>
      arrays (snd (to_ltrb_arr s orig orig_strict)) ! a = arrays s ! a)"
proof -
  have ltrb: "untouched s (snd (to_ltrb_arr s orig orig_strict))"
    by (rule untouched_to_ltrb)
  have fresh_ltwh:
    "fst (to_ltwh_arr s orig orig_strict) = Inr (Some ret) \<longrightarrow>
       length (arrays s) \<le> ret \<and> ret < length (arrays (snd (to_ltwh_arr s orig orig_strict)))"
    using fresh_to_ltwh [of s orig orig_strict ret] by simp
  have fresh_ltrb:
    "fst (to_ltrb_arr s orig orig_strict) = Inr (Some ret) \<longrightarrow>
       length (arrays s) \<le> ret \<and> ret < length (arrays (snd (to_ltrb_arr s orig orig_strict)))"
    using fresh_to_ltrb [of s orig orig_strict ret] by simp
  have fresh_center:
    "fst (to_center_arr s) = Inr (View ret i j) \<longrightarrow>
       length (arrays s) \<le> ret \<and> ret < length (arrays (snd (to_center_arr s)))"
    using fresh_to_center [of s ret i j] by simp
  show ?thesis
    using ltrb fresh_ltwh fresh_ltrb fresh_center
    by (simp add: to_tlwh_arr_def to_tlbr_arr_def untouched_to_ltwh untouched_to_center
          untouched_nth)
qed

theorem geometry_queries_read_only_witness:
  "fst (to_ltrb_arr example_arrays True True) = Inr (Some 2) \<and>
   fst (to_ltwh_arr example_arrays True True) = Inr (Some 2) \<and>
   fst (to_center_arr example_arrays) = Inr (View 2 0 2) \<and>
   mean_ref example_arrays = 0 \<and> original_ltwh_ref example_arrays = Some 1 \<and>
   length (arrays example_arrays) = 2 \<and>
   arrays (snd (to_ltrb_arr example_arrays True True)) =
     [[10, 20, 1 / 2, 8, 0, 0, 0, 0], [8, 16, 5, 9], [8, 16, 13, 25]] \<and>
   arrays (snd (to_ltrb_arr example_arrays True True)) ! 0 = arrays example_arrays ! 0 \<and>
   arrays (snd (to_ltrb_arr example_arrays True True)) ! 1 = arrays example_arrays ! 1 \<and>
   untouched example_arrays (snd (to_ltrb_arr example_arrays True True))"
  using geometry_queries_read_only [of example_arrays True True 2 0 2 1]
  by (simp add: example_arrays_def to_ltrb_arr_def to_ltwh_arr_def to_center_arr_def
        new_array_def in_place_def Let_def floor_divide_def)

section \<open>The trajectory of a new track\<close>

text \<open>
  Claim C10. A track constructed with an original box \<open>(l, t, w, h)\<close> starts with a
  trajectory of exactly one point, the top-left corner plus the floor of half the width
  and of half the height; a track constructed without an original box starts with an
  empty trajectory.
\<close>

theorem init_trajectory:
  "trajectory (init_track m cv tid ni ma f (Some (l, t, w, h)) dc dcf im ot) =
     [(l + of_int \<lfloor>w / 2\<rfloor>, t + of_int \<lfloor>h / 2\<rfloor>)] \<and>
   trajectory (init_track m cv tid ni ma f None dc dcf im ot) = []"
  by (simp add: init_track_def floor_divide_def)

end
